theory Spec2Isabelle
  imports Complex_Main "HOL-Library.Sublist"
begin

section \<open>JavaScript strings and the built-in operations the component calls\<close>

text \<open>
  The component \<^verbatim>\<open>DentalPregnancyLanding.tsx\<close> works on JavaScript strings, which are
  sequences of UTF-16 code units. A code unit is modelled as an integer (from 0 to
  65535) and a string as the list of its code units. A literal of the source whose
  characters are ASCII is written \<open>str ''...''\<close>: each character is its own code unit.
\<close>

type_synonym jsstring = "int list"

definition str :: "string \<Rightarrow> jsstring" where
  "str s = map of_char s"

subsection \<open>\<^verbatim>\<open>String.prototype.trim\<close>\<close>

text \<open>
  \<^verbatim>\<open>trim\<close> removes white space and line terminators at both ends: TAB, LF, VT, FF,
  CR, the byte order mark U+FEFF, the separators U+2028 and U+2029, and the code points
  of category Zs (U+0020, U+00A0, U+1680, U+2000 to U+200A, U+202F, U+205F, U+3000).
  All of them are single code units.
\<close>

definition is_space :: "int \<Rightarrow> bool" where
  "is_space c = (c = 0x09 \<or> c = 0x0A \<or> c = 0x0B \<or> c = 0x0C \<or> c = 0x0D \<or> c = 0x20
     \<or> c = 0xA0 \<or> c = 0x1680 \<or> (0x2000 \<le> c \<and> c \<le> 0x200A) \<or> c = 0x2028 \<or> c = 0x2029
     \<or> c = 0x202F \<or> c = 0x205F \<or> c = 0x3000 \<or> c = 0xFEFF)"

definition trim :: "jsstring \<Rightarrow> jsstring" where
  "trim s = rev (dropWhile is_space (rev (dropWhile is_space s)))"

subsection \<open>\<^verbatim>\<open>String.prototype.toLowerCase\<close>\<close>

text \<open>
  \<^verbatim>\<open>toLowerCase\<close> reads the string as code points (a high surrogate followed by a low
  surrogate is one code point, any other code unit is a code point by itself), maps
  each code point by the locale-insensitive lowercase mapping of the Unicode Character
  Database, and writes the result back as code units.
\<close>

definition is_high_surrogate :: "int \<Rightarrow> bool" where
  "is_high_surrogate u = (0xD800 \<le> u \<and> u \<le> 0xDBFF)"

definition is_low_surrogate :: "int \<Rightarrow> bool" where
  "is_low_surrogate u = (0xDC00 \<le> u \<and> u \<le> 0xDFFF)"

fun StringToCodePoints :: "jsstring \<Rightarrow> int list" where
  "StringToCodePoints [] = []"
| "StringToCodePoints [u] = [u]"
| "StringToCodePoints (u # v # us) =
     (if is_high_surrogate u \<and> is_low_surrogate v
      then ((u - 0xD800) * 0x400 + (v - 0xDC00) + 0x10000) # StringToCodePoints us
      else u # StringToCodePoints (v # us))"

definition UTF16EncodeCodePoint :: "int \<Rightarrow> jsstring" where
  "UTF16EncodeCodePoint cp = (if cp \<le> 0xFFFF then [cp]
     else [(cp - 0x10000) div 0x400 + 0xD800, (cp - 0x10000) mod 0x400 + 0xDC00])"

definition CodePointsToString :: "int list \<Rightarrow> jsstring" where
  "CodePointsToString cps = concat (map UTF16EncodeCodePoint cps)"

text \<open>
  The simple lowercase mappings of the code points above U+007F (Unicode 14.0), as
  progressions: \<open>(first, last, step, d)\<close> maps \<open>first\<close>, \<open>first + step\<close>, ..., \<open>last\<close> to
  themselves plus \<open>d\<close>. A code point in no progression is its own lowercase.
\<close>

definition lower_table :: "(int \<times> int \<times> int \<times> int) list" where
  "lower_table = [
    (0xC0, 0xD6, 1, 32), (0xD8, 0xDE, 1, 32), (0x100, 0x12E, 2, 1),
    (0x132, 0x136, 2, 1), (0x139, 0x147, 2, 1), (0x14A, 0x176, 2, 1),
    (0x178, 0x178, 1, - 121), (0x179, 0x17D, 2, 1), (0x181, 0x181, 1, 210),
    (0x182, 0x184, 2, 1), (0x186, 0x186, 1, 206), (0x187, 0x187, 1, 1),
    (0x189, 0x18A, 1, 205), (0x18B, 0x18B, 1, 1), (0x18E, 0x18E, 1, 79),
    (0x18F, 0x18F, 1, 202), (0x190, 0x190, 1, 203), (0x191, 0x191, 1, 1),
    (0x193, 0x193, 1, 205), (0x194, 0x194, 1, 207), (0x196, 0x196, 1, 211),
    (0x197, 0x197, 1, 209), (0x198, 0x198, 1, 1), (0x19C, 0x19C, 1, 211),
    (0x19D, 0x19D, 1, 213), (0x19F, 0x19F, 1, 214), (0x1A0, 0x1A4, 2, 1),
    (0x1A6, 0x1A6, 1, 218), (0x1A7, 0x1A7, 1, 1), (0x1A9, 0x1A9, 1, 218),
    (0x1AC, 0x1AC, 1, 1), (0x1AE, 0x1AE, 1, 218), (0x1AF, 0x1AF, 1, 1),
    (0x1B1, 0x1B2, 1, 217), (0x1B3, 0x1B5, 2, 1), (0x1B7, 0x1B7, 1, 219),
    (0x1B8, 0x1B8, 1, 1), (0x1BC, 0x1BC, 1, 1), (0x1C4, 0x1C4, 1, 2),
    (0x1C5, 0x1C5, 1, 1), (0x1C7, 0x1C7, 1, 2), (0x1C8, 0x1C8, 1, 1),
    (0x1CA, 0x1CA, 1, 2), (0x1CB, 0x1DB, 2, 1), (0x1DE, 0x1EE, 2, 1),
    (0x1F1, 0x1F1, 1, 2), (0x1F2, 0x1F4, 2, 1), (0x1F6, 0x1F6, 1, - 97),
    (0x1F7, 0x1F7, 1, - 56), (0x1F8, 0x21E, 2, 1), (0x220, 0x220, 1, - 130),
    (0x222, 0x232, 2, 1), (0x23A, 0x23A, 1, 10795), (0x23B, 0x23B, 1, 1),
    (0x23D, 0x23D, 1, - 163), (0x23E, 0x23E, 1, 10792), (0x241, 0x241, 1, 1),
    (0x243, 0x243, 1, - 195), (0x244, 0x244, 1, 69), (0x245, 0x245, 1, 71),
    (0x246, 0x24E, 2, 1), (0x370, 0x372, 2, 1), (0x376, 0x376, 1, 1),
    (0x37F, 0x37F, 1, 116), (0x386, 0x386, 1, 38), (0x388, 0x38A, 1, 37),
    (0x38C, 0x38C, 1, 64), (0x38E, 0x38F, 1, 63), (0x391, 0x3A1, 1, 32),
    (0x3A3, 0x3AB, 1, 32), (0x3CF, 0x3CF, 1, 8), (0x3D8, 0x3EE, 2, 1),
    (0x3F4, 0x3F4, 1, - 60), (0x3F7, 0x3F7, 1, 1), (0x3F9, 0x3F9, 1, - 7),
    (0x3FA, 0x3FA, 1, 1), (0x3FD, 0x3FF, 1, - 130), (0x400, 0x40F, 1, 80),
    (0x410, 0x42F, 1, 32), (0x460, 0x480, 2, 1), (0x48A, 0x4BE, 2, 1),
    (0x4C0, 0x4C0, 1, 15), (0x4C1, 0x4CD, 2, 1), (0x4D0, 0x52E, 2, 1),
    (0x531, 0x556, 1, 48), (0x10A0, 0x10C5, 1, 7264), (0x10C7, 0x10C7, 1, 7264),
    (0x10CD, 0x10CD, 1, 7264), (0x13A0, 0x13EF, 1, 38864), (0x13F0, 0x13F5, 1, 8),
    (0x1C90, 0x1CBA, 1, - 3008), (0x1CBD, 0x1CBF, 1, - 3008), (0x1E00, 0x1E94, 2, 1),
    (0x1E9E, 0x1E9E, 1, - 7615), (0x1EA0, 0x1EFE, 2, 1), (0x1F08, 0x1F0F, 1, - 8),
    (0x1F18, 0x1F1D, 1, - 8), (0x1F28, 0x1F2F, 1, - 8), (0x1F38, 0x1F3F, 1, - 8),
    (0x1F48, 0x1F4D, 1, - 8), (0x1F59, 0x1F5F, 2, - 8), (0x1F68, 0x1F6F, 1, - 8),
    (0x1F88, 0x1F8F, 1, - 8), (0x1F98, 0x1F9F, 1, - 8), (0x1FA8, 0x1FAF, 1, - 8),
    (0x1FB8, 0x1FB9, 1, - 8), (0x1FBA, 0x1FBB, 1, - 74), (0x1FBC, 0x1FBC, 1, - 9),
    (0x1FC8, 0x1FCB, 1, - 86), (0x1FCC, 0x1FCC, 1, - 9), (0x1FD8, 0x1FD9, 1, - 8),
    (0x1FDA, 0x1FDB, 1, - 100), (0x1FE8, 0x1FE9, 1, - 8), (0x1FEA, 0x1FEB, 1, - 112),
    (0x1FEC, 0x1FEC, 1, - 7), (0x1FF8, 0x1FF9, 1, - 128), (0x1FFA, 0x1FFB, 1, - 126),
    (0x1FFC, 0x1FFC, 1, - 9), (0x2126, 0x2126, 1, - 7517), (0x212A, 0x212A, 1, - 8383),
    (0x212B, 0x212B, 1, - 8262), (0x2132, 0x2132, 1, 28), (0x2160, 0x216F, 1, 16),
    (0x2183, 0x2183, 1, 1), (0x24B6, 0x24CF, 1, 26), (0x2C00, 0x2C2F, 1, 48),
    (0x2C60, 0x2C60, 1, 1), (0x2C62, 0x2C62, 1, - 10743), (0x2C63, 0x2C63, 1, - 3814),
    (0x2C64, 0x2C64, 1, - 10727), (0x2C67, 0x2C6B, 2, 1), (0x2C6D, 0x2C6D, 1, - 10780),
    (0x2C6E, 0x2C6E, 1, - 10749), (0x2C6F, 0x2C6F, 1, - 10783), (0x2C70, 0x2C70, 1, - 10782),
    (0x2C72, 0x2C72, 1, 1), (0x2C75, 0x2C75, 1, 1), (0x2C7E, 0x2C7F, 1, - 10815),
    (0x2C80, 0x2CE2, 2, 1), (0x2CEB, 0x2CED, 2, 1), (0x2CF2, 0x2CF2, 1, 1),
    (0xA640, 0xA66C, 2, 1), (0xA680, 0xA69A, 2, 1), (0xA722, 0xA72E, 2, 1),
    (0xA732, 0xA76E, 2, 1), (0xA779, 0xA77B, 2, 1), (0xA77D, 0xA77D, 1, - 35332),
    (0xA77E, 0xA786, 2, 1), (0xA78B, 0xA78B, 1, 1), (0xA78D, 0xA78D, 1, - 42280),
    (0xA790, 0xA792, 2, 1), (0xA796, 0xA7A8, 2, 1), (0xA7AA, 0xA7AA, 1, - 42308),
    (0xA7AB, 0xA7AB, 1, - 42319), (0xA7AC, 0xA7AC, 1, - 42315), (0xA7AD, 0xA7AD, 1, - 42305),
    (0xA7AE, 0xA7AE, 1, - 42308), (0xA7B0, 0xA7B0, 1, - 42258), (0xA7B1, 0xA7B1, 1, - 42282),
    (0xA7B2, 0xA7B2, 1, - 42261), (0xA7B3, 0xA7B3, 1, 928), (0xA7B4, 0xA7C2, 2, 1),
    (0xA7C4, 0xA7C4, 1, - 48), (0xA7C5, 0xA7C5, 1, - 42307), (0xA7C6, 0xA7C6, 1, - 35384),
    (0xA7C7, 0xA7C9, 2, 1), (0xA7D0, 0xA7D0, 1, 1), (0xA7D6, 0xA7D8, 2, 1),
    (0xA7F5, 0xA7F5, 1, 1), (0xFF21, 0xFF3A, 1, 32), (0x10400, 0x10427, 1, 40),
    (0x104B0, 0x104D3, 1, 40), (0x10570, 0x1057A, 1, 39), (0x1057C, 0x1058A, 1, 39),
    (0x1058C, 0x10592, 1, 39), (0x10594, 0x10595, 1, 39), (0x10C80, 0x10CB2, 1, 64),
    (0x118A0, 0x118BF, 1, 32), (0x16E40, 0x16E5F, 1, 32), (0x1E900, 0x1E921, 1, 34)]"

fun lookup_lower :: "(int \<times> int \<times> int \<times> int) list \<Rightarrow> int \<Rightarrow> int" where
  "lookup_lower [] c = c"
| "lookup_lower ((a, b, st, d) # rs) c =
     (if a \<le> c \<and> c \<le> b \<and> (c - a) mod st = 0 then c + d else lookup_lower rs c)"

definition simple_lower :: "int \<Rightarrow> int" where
  "simple_lower c = (if c < 0x80 then (if 0x41 \<le> c \<and> c \<le> 0x5A then c + 0x20 else c)
     else lookup_lower lower_table c)"

text \<open>
  The one unconditional special casing: capital I with dot above (U+0130) becomes
  \<open>i\<close> followed by the combining dot above.
\<close>

definition lower_mapping :: "int \<Rightarrow> int list" where
  "lower_mapping c = (if c = 0x130 then [0x69, 0x307] else [simple_lower c])"

text \<open>
  The one locale-insensitive condition: capital sigma (U+03A3) becomes final sigma
  (U+03C2) when the nearest code point before it that is not case-ignorable is cased,
  and the nearest one after it that is not case-ignorable is not cased (or there is
  none); otherwise it becomes small sigma (U+03C3). \<open>case_ignorable_table\<close> holds the
  code points with the property Case_Ignorable, \<open>cased_table\<close> those with the property
  Cased that are not case-ignorable (the others are skipped before Cased is asked), as
  closed intervals.
\<close>

definition case_ignorable_table :: "(int \<times> int) list" where
  "case_ignorable_table = [
    (0x27, 0x27), (0x2E, 0x2E), (0x3A, 0x3A), (0x5E, 0x5E), (0x60, 0x60),
    (0xA8, 0xA8), (0xAD, 0xAD), (0xAF, 0xAF), (0xB4, 0xB4), (0xB7, 0xB8),
    (0x2B0, 0x36F), (0x374, 0x375), (0x37A, 0x37A), (0x384, 0x385), (0x387, 0x387),
    (0x483, 0x489), (0x559, 0x559), (0x55F, 0x55F), (0x591, 0x5BD), (0x5BF, 0x5BF),
    (0x5C1, 0x5C2), (0x5C4, 0x5C5), (0x5C7, 0x5C7), (0x5F4, 0x5F4), (0x600, 0x605),
    (0x610, 0x61A), (0x61C, 0x61C), (0x640, 0x640), (0x64B, 0x65F), (0x670, 0x670),
    (0x6D6, 0x6DD), (0x6DF, 0x6E8), (0x6EA, 0x6ED), (0x70F, 0x70F), (0x711, 0x711),
    (0x730, 0x74A), (0x7A6, 0x7B0), (0x7EB, 0x7F5), (0x7FA, 0x7FA), (0x7FD, 0x7FD),
    (0x816, 0x82D), (0x859, 0x85B), (0x888, 0x888), (0x890, 0x891), (0x898, 0x89F),
    (0x8C9, 0x902), (0x93A, 0x93A), (0x93C, 0x93C), (0x941, 0x948), (0x94D, 0x94D),
    (0x951, 0x957), (0x962, 0x963), (0x971, 0x971), (0x981, 0x981), (0x9BC, 0x9BC),
    (0x9C1, 0x9C4), (0x9CD, 0x9CD), (0x9E2, 0x9E3), (0x9FE, 0x9FE), (0xA01, 0xA02),
    (0xA3C, 0xA3C), (0xA41, 0xA42), (0xA47, 0xA48), (0xA4B, 0xA4D), (0xA51, 0xA51),
    (0xA70, 0xA71), (0xA75, 0xA75), (0xA81, 0xA82), (0xABC, 0xABC), (0xAC1, 0xAC5),
    (0xAC7, 0xAC8), (0xACD, 0xACD), (0xAE2, 0xAE3), (0xAFA, 0xAFF), (0xB01, 0xB01),
    (0xB3C, 0xB3C), (0xB3F, 0xB3F), (0xB41, 0xB44), (0xB4D, 0xB4D), (0xB55, 0xB56),
    (0xB62, 0xB63), (0xB82, 0xB82), (0xBC0, 0xBC0), (0xBCD, 0xBCD), (0xC00, 0xC00),
    (0xC04, 0xC04), (0xC3C, 0xC3C), (0xC3E, 0xC40), (0xC46, 0xC48), (0xC4A, 0xC4D),
    (0xC55, 0xC56), (0xC62, 0xC63), (0xC81, 0xC81), (0xCBC, 0xCBC), (0xCBF, 0xCBF),
    (0xCC6, 0xCC6), (0xCCC, 0xCCD), (0xCE2, 0xCE3), (0xD00, 0xD01), (0xD3B, 0xD3C),
    (0xD41, 0xD44), (0xD4D, 0xD4D), (0xD62, 0xD63), (0xD81, 0xD81), (0xDCA, 0xDCA),
    (0xDD2, 0xDD4), (0xDD6, 0xDD6), (0xE31, 0xE31), (0xE34, 0xE3A), (0xE46, 0xE4E),
    (0xEB1, 0xEB1), (0xEB4, 0xEBC), (0xEC6, 0xEC6), (0xEC8, 0xECD), (0xF18, 0xF19),
    (0xF35, 0xF35), (0xF37, 0xF37), (0xF39, 0xF39), (0xF71, 0xF7E), (0xF80, 0xF84),
    (0xF86, 0xF87), (0xF8D, 0xF97), (0xF99, 0xFBC), (0xFC6, 0xFC6), (0x102D, 0x1030),
    (0x1032, 0x1037), (0x1039, 0x103A), (0x103D, 0x103E), (0x1058, 0x1059), (0x105E, 0x1060),
    (0x1071, 0x1074), (0x1082, 0x1082), (0x1085, 0x1086), (0x108D, 0x108D), (0x109D, 0x109D),
    (0x10FC, 0x10FC), (0x135D, 0x135F), (0x1712, 0x1714), (0x1732, 0x1733), (0x1752, 0x1753),
    (0x1772, 0x1773), (0x17B4, 0x17B5), (0x17B7, 0x17BD), (0x17C6, 0x17C6), (0x17C9, 0x17D3),
    (0x17D7, 0x17D7), (0x17DD, 0x17DD), (0x180B, 0x180F), (0x1843, 0x1843), (0x1885, 0x1886),
    (0x18A9, 0x18A9), (0x1920, 0x1922), (0x1927, 0x1928), (0x1932, 0x1932), (0x1939, 0x193B),
    (0x1A17, 0x1A18), (0x1A1B, 0x1A1B), (0x1A56, 0x1A56), (0x1A58, 0x1A5E), (0x1A60, 0x1A60),
    (0x1A62, 0x1A62), (0x1A65, 0x1A6C), (0x1A73, 0x1A7C), (0x1A7F, 0x1A7F), (0x1AA7, 0x1AA7),
    (0x1AB0, 0x1ACE), (0x1B00, 0x1B03), (0x1B34, 0x1B34), (0x1B36, 0x1B3A), (0x1B3C, 0x1B3C),
    (0x1B42, 0x1B42), (0x1B6B, 0x1B73), (0x1B80, 0x1B81), (0x1BA2, 0x1BA5), (0x1BA8, 0x1BA9),
    (0x1BAB, 0x1BAD), (0x1BE6, 0x1BE6), (0x1BE8, 0x1BE9), (0x1BED, 0x1BED), (0x1BEF, 0x1BF1),
    (0x1C2C, 0x1C33), (0x1C36, 0x1C37), (0x1C78, 0x1C7D), (0x1CD0, 0x1CD2), (0x1CD4, 0x1CE0),
    (0x1CE2, 0x1CE8), (0x1CED, 0x1CED), (0x1CF4, 0x1CF4), (0x1CF8, 0x1CF9), (0x1D2C, 0x1D6A),
    (0x1D78, 0x1D78), (0x1D9B, 0x1DFF), (0x1FBD, 0x1FBD), (0x1FBF, 0x1FC1), (0x1FCD, 0x1FCF),
    (0x1FDD, 0x1FDF), (0x1FED, 0x1FEF), (0x1FFD, 0x1FFE), (0x200B, 0x200F), (0x2018, 0x2019),
    (0x2024, 0x2024), (0x2027, 0x2027), (0x202A, 0x202E), (0x2060, 0x2064), (0x2066, 0x206F),
    (0x2071, 0x2071), (0x207F, 0x207F), (0x2090, 0x209C), (0x20D0, 0x20F0), (0x2C7C, 0x2C7D),
    (0x2CEF, 0x2CF1), (0x2D6F, 0x2D6F), (0x2D7F, 0x2D7F), (0x2DE0, 0x2DFF), (0x2E2F, 0x2E2F),
    (0x3005, 0x3005), (0x302A, 0x302D), (0x3031, 0x3035), (0x303B, 0x303B), (0x3099, 0x309E),
    (0x30FC, 0x30FE), (0xA015, 0xA015), (0xA4F8, 0xA4FD), (0xA60C, 0xA60C), (0xA66F, 0xA672),
    (0xA674, 0xA67D), (0xA67F, 0xA67F), (0xA69C, 0xA69F), (0xA6F0, 0xA6F1), (0xA700, 0xA721),
    (0xA770, 0xA770), (0xA788, 0xA78A), (0xA7F2, 0xA7F4), (0xA7F8, 0xA7F9), (0xA802, 0xA802),
    (0xA806, 0xA806), (0xA80B, 0xA80B), (0xA825, 0xA826), (0xA82C, 0xA82C), (0xA8C4, 0xA8C5),
    (0xA8E0, 0xA8F1), (0xA8FF, 0xA8FF), (0xA926, 0xA92D), (0xA947, 0xA951), (0xA980, 0xA982),
    (0xA9B3, 0xA9B3), (0xA9B6, 0xA9B9), (0xA9BC, 0xA9BD), (0xA9CF, 0xA9CF), (0xA9E5, 0xA9E6),
    (0xAA29, 0xAA2E), (0xAA31, 0xAA32), (0xAA35, 0xAA36), (0xAA43, 0xAA43), (0xAA4C, 0xAA4C),
    (0xAA70, 0xAA70), (0xAA7C, 0xAA7C), (0xAAB0, 0xAAB0), (0xAAB2, 0xAAB4), (0xAAB7, 0xAAB8),
    (0xAABE, 0xAABF), (0xAAC1, 0xAAC1), (0xAADD, 0xAADD), (0xAAEC, 0xAAED), (0xAAF3, 0xAAF4),
    (0xAAF6, 0xAAF6), (0xAB5B, 0xAB5F), (0xAB69, 0xAB6B), (0xABE5, 0xABE5), (0xABE8, 0xABE8),
    (0xABED, 0xABED), (0xFB1E, 0xFB1E), (0xFBB2, 0xFBC2), (0xFE00, 0xFE0F), (0xFE13, 0xFE13),
    (0xFE20, 0xFE2F), (0xFE52, 0xFE52), (0xFE55, 0xFE55), (0xFEFF, 0xFEFF), (0xFF07, 0xFF07),
    (0xFF0E, 0xFF0E), (0xFF1A, 0xFF1A), (0xFF3E, 0xFF3E), (0xFF40, 0xFF40), (0xFF70, 0xFF70),
    (0xFF9E, 0xFF9F), (0xFFE3, 0xFFE3), (0xFFF9, 0xFFFB), (0x101FD, 0x101FD), (0x102E0, 0x102E0),
    (0x10376, 0x1037A), (0x10780, 0x10785), (0x10787, 0x107B0), (0x107B2, 0x107BA), (0x10A01, 0x10A03),
    (0x10A05, 0x10A06), (0x10A0C, 0x10A0F), (0x10A38, 0x10A3A), (0x10A3F, 0x10A3F), (0x10AE5, 0x10AE6),
    (0x10D24, 0x10D27), (0x10EAB, 0x10EAC), (0x10F46, 0x10F50), (0x10F82, 0x10F85), (0x11001, 0x11001),
    (0x11038, 0x11046), (0x11070, 0x11070), (0x11073, 0x11074), (0x1107F, 0x11081), (0x110B3, 0x110B6),
    (0x110B9, 0x110BA), (0x110BD, 0x110BD), (0x110C2, 0x110C2), (0x110CD, 0x110CD), (0x11100, 0x11102),
    (0x11127, 0x1112B), (0x1112D, 0x11134), (0x11173, 0x11173), (0x11180, 0x11181), (0x111B6, 0x111BE),
    (0x111C9, 0x111CC), (0x111CF, 0x111CF), (0x1122F, 0x11231), (0x11234, 0x11234), (0x11236, 0x11237),
    (0x1123E, 0x1123E), (0x112DF, 0x112DF), (0x112E3, 0x112EA), (0x11300, 0x11301), (0x1133B, 0x1133C),
    (0x11340, 0x11340), (0x11366, 0x1136C), (0x11370, 0x11374), (0x11438, 0x1143F), (0x11442, 0x11444),
    (0x11446, 0x11446), (0x1145E, 0x1145E), (0x114B3, 0x114B8), (0x114BA, 0x114BA), (0x114BF, 0x114C0),
    (0x114C2, 0x114C3), (0x115B2, 0x115B5), (0x115BC, 0x115BD), (0x115BF, 0x115C0), (0x115DC, 0x115DD),
    (0x11633, 0x1163A), (0x1163D, 0x1163D), (0x1163F, 0x11640), (0x116AB, 0x116AB), (0x116AD, 0x116AD),
    (0x116B0, 0x116B5), (0x116B7, 0x116B7), (0x1171D, 0x1171F), (0x11722, 0x11725), (0x11727, 0x1172B),
    (0x1182F, 0x11837), (0x11839, 0x1183A), (0x1193B, 0x1193C), (0x1193E, 0x1193E), (0x11943, 0x11943),
    (0x119D4, 0x119D7), (0x119DA, 0x119DB), (0x119E0, 0x119E0), (0x11A01, 0x11A0A), (0x11A33, 0x11A38),
    (0x11A3B, 0x11A3E), (0x11A47, 0x11A47), (0x11A51, 0x11A56), (0x11A59, 0x11A5B), (0x11A8A, 0x11A96),
    (0x11A98, 0x11A99), (0x11C30, 0x11C36), (0x11C38, 0x11C3D), (0x11C3F, 0x11C3F), (0x11C92, 0x11CA7),
    (0x11CAA, 0x11CB0), (0x11CB2, 0x11CB3), (0x11CB5, 0x11CB6), (0x11D31, 0x11D36), (0x11D3A, 0x11D3A),
    (0x11D3C, 0x11D3D), (0x11D3F, 0x11D45), (0x11D47, 0x11D47), (0x11D90, 0x11D91), (0x11D95, 0x11D95),
    (0x11D97, 0x11D97), (0x11EF3, 0x11EF4), (0x13430, 0x13438), (0x16AF0, 0x16AF4), (0x16B30, 0x16B36),
    (0x16B40, 0x16B43), (0x16F4F, 0x16F4F), (0x16F8F, 0x16F9F), (0x16FE0, 0x16FE1), (0x16FE3, 0x16FE4),
    (0x1AFF0, 0x1AFF3), (0x1AFF5, 0x1AFFB), (0x1AFFD, 0x1AFFE), (0x1BC9D, 0x1BC9E), (0x1BCA0, 0x1BCA3),
    (0x1CF00, 0x1CF2D), (0x1CF30, 0x1CF46), (0x1D167, 0x1D169), (0x1D173, 0x1D182), (0x1D185, 0x1D18B),
    (0x1D1AA, 0x1D1AD), (0x1D242, 0x1D244), (0x1DA00, 0x1DA36), (0x1DA3B, 0x1DA6C), (0x1DA75, 0x1DA75),
    (0x1DA84, 0x1DA84), (0x1DA9B, 0x1DA9F), (0x1DAA1, 0x1DAAF), (0x1E000, 0x1E006), (0x1E008, 0x1E018),
    (0x1E01B, 0x1E021), (0x1E023, 0x1E024), (0x1E026, 0x1E02A), (0x1E130, 0x1E13D), (0x1E2AE, 0x1E2AE),
    (0x1E2EC, 0x1E2EF), (0x1E8D0, 0x1E8D6), (0x1E944, 0x1E94B), (0x1F3FB, 0x1F3FF), (0xE0001, 0xE0001),
    (0xE0020, 0xE007F), (0xE0100, 0xE01EF)]"

definition cased_table :: "(int \<times> int) list" where
  "cased_table = [
    (0x41, 0x5A), (0x61, 0x7A), (0xAA, 0xAA), (0xB5, 0xB5), (0xBA, 0xBA),
    (0xC0, 0xD6), (0xD8, 0xF6), (0xF8, 0x1BA), (0x1BC, 0x1BF), (0x1C4, 0x293),
    (0x295, 0x2AF), (0x370, 0x373), (0x376, 0x377), (0x37B, 0x37D), (0x37F, 0x37F),
    (0x386, 0x386), (0x388, 0x38A), (0x38C, 0x38C), (0x38E, 0x3A1), (0x3A3, 0x3F5),
    (0x3F7, 0x481), (0x48A, 0x52F), (0x531, 0x556), (0x560, 0x588), (0x10A0, 0x10C5),
    (0x10C7, 0x10C7), (0x10CD, 0x10CD), (0x10D0, 0x10FA), (0x10FD, 0x10FF), (0x13A0, 0x13F5),
    (0x13F8, 0x13FD), (0x1C80, 0x1C88), (0x1C90, 0x1CBA), (0x1CBD, 0x1CBF), (0x1D00, 0x1D2B),
    (0x1D6B, 0x1D77), (0x1D79, 0x1D9A), (0x1E00, 0x1F15), (0x1F18, 0x1F1D), (0x1F20, 0x1F45),
    (0x1F48, 0x1F4D), (0x1F50, 0x1F57), (0x1F59, 0x1F59), (0x1F5B, 0x1F5B), (0x1F5D, 0x1F5D),
    (0x1F5F, 0x1F7D), (0x1F80, 0x1FB4), (0x1FB6, 0x1FBC), (0x1FBE, 0x1FBE), (0x1FC2, 0x1FC4),
    (0x1FC6, 0x1FCC), (0x1FD0, 0x1FD3), (0x1FD6, 0x1FDB), (0x1FE0, 0x1FEC), (0x1FF2, 0x1FF4),
    (0x1FF6, 0x1FFC), (0x2102, 0x2102), (0x2107, 0x2107), (0x210A, 0x2113), (0x2115, 0x2115),
    (0x2119, 0x211D), (0x2124, 0x2124), (0x2126, 0x2126), (0x2128, 0x2128), (0x212A, 0x212D),
    (0x212F, 0x2134), (0x2139, 0x2139), (0x213C, 0x213F), (0x2145, 0x2149), (0x214E, 0x214E),
    (0x2160, 0x217F), (0x2183, 0x2184), (0x24B6, 0x24E9), (0x2C00, 0x2C7B), (0x2C7E, 0x2CE4),
    (0x2CEB, 0x2CEE), (0x2CF2, 0x2CF3), (0x2D00, 0x2D25), (0x2D27, 0x2D27), (0x2D2D, 0x2D2D),
    (0xA640, 0xA66D), (0xA680, 0xA69B), (0xA722, 0xA76F), (0xA771, 0xA787), (0xA78B, 0xA78E),
    (0xA790, 0xA7CA), (0xA7D0, 0xA7D1), (0xA7D3, 0xA7D3), (0xA7D5, 0xA7D9), (0xA7F5, 0xA7F6),
    (0xA7FA, 0xA7FA), (0xAB30, 0xAB5A), (0xAB60, 0xAB68), (0xAB70, 0xABBF), (0xFB00, 0xFB06),
    (0xFB13, 0xFB17), (0xFF21, 0xFF3A), (0xFF41, 0xFF5A), (0x10400, 0x1044F), (0x104B0, 0x104D3),
    (0x104D8, 0x104FB), (0x10570, 0x1057A), (0x1057C, 0x1058A), (0x1058C, 0x10592), (0x10594, 0x10595),
    (0x10597, 0x105A1), (0x105A3, 0x105B1), (0x105B3, 0x105B9), (0x105BB, 0x105BC), (0x10C80, 0x10CB2),
    (0x10CC0, 0x10CF2), (0x118A0, 0x118DF), (0x16E40, 0x16E7F), (0x1D400, 0x1D454), (0x1D456, 0x1D49C),
    (0x1D49E, 0x1D49F), (0x1D4A2, 0x1D4A2), (0x1D4A5, 0x1D4A6), (0x1D4A9, 0x1D4AC), (0x1D4AE, 0x1D4B9),
    (0x1D4BB, 0x1D4BB), (0x1D4BD, 0x1D4C3), (0x1D4C5, 0x1D505), (0x1D507, 0x1D50A), (0x1D50D, 0x1D514),
    (0x1D516, 0x1D51C), (0x1D51E, 0x1D539), (0x1D53B, 0x1D53E), (0x1D540, 0x1D544), (0x1D546, 0x1D546),
    (0x1D54A, 0x1D550), (0x1D552, 0x1D6A5), (0x1D6A8, 0x1D6C0), (0x1D6C2, 0x1D6DA), (0x1D6DC, 0x1D6FA),
    (0x1D6FC, 0x1D714), (0x1D716, 0x1D734), (0x1D736, 0x1D74E), (0x1D750, 0x1D76E), (0x1D770, 0x1D788),
    (0x1D78A, 0x1D7A8), (0x1D7AA, 0x1D7C2), (0x1D7C4, 0x1D7CB), (0x1DF00, 0x1DF09), (0x1DF0B, 0x1DF1E),
    (0x1E900, 0x1E943), (0x1F130, 0x1F149), (0x1F150, 0x1F169), (0x1F170, 0x1F189)]"

fun in_intervals :: "(int \<times> int) list \<Rightarrow> int \<Rightarrow> bool" where
  "in_intervals [] c = False"
| "in_intervals ((a, b) # rs) c = ((a \<le> c \<and> c \<le> b) \<or> in_intervals rs c)"

definition case_ignorable :: "int \<Rightarrow> bool" where
  "case_ignorable c = in_intervals case_ignorable_table c"

definition cased :: "int \<Rightarrow> bool" where
  "cased c = in_intervals cased_table c"

text \<open>\<open>before\<close> holds the code points before the sigma, the nearest first.\<close>

definition final_sigma :: "int list \<Rightarrow> int list \<Rightarrow> bool" where
  "final_sigma pre post =
     ((case dropWhile case_ignorable pre of [] \<Rightarrow> False | c # cs \<Rightarrow> cased c) \<and>
      (case dropWhile case_ignorable post of [] \<Rightarrow> True | c # cs \<Rightarrow> \<not> cased c))"

fun lower_cps :: "int list \<Rightarrow> int list \<Rightarrow> int list" where
  "lower_cps pre [] = []"
| "lower_cps pre (c # cs) =
     (if c = 0x3A3 then [if final_sigma pre cs then 0x3C2 else 0x3C3]
      else lower_mapping c) @ lower_cps (c # pre) cs"

definition toLowerCase :: "jsstring \<Rightarrow> jsstring" where
  "toLowerCase s = CodePointsToString (lower_cps [] (StringToCodePoints s))"

subsection \<open>\<^verbatim>\<open>includes\<close>, \<^verbatim>\<open>slice\<close> and template literals\<close>

text \<open>
  \<^verbatim>\<open>h.includes(n)\<close> scans the receiver from left to right for a position where the
  argument starts.
\<close>

primrec starts_with :: "jsstring \<Rightarrow> jsstring \<Rightarrow> bool" where
  "starts_with h [] = True"
| "starts_with h (c # cs) = (case h of [] \<Rightarrow> False | d # ds \<Rightarrow> d = c \<and> starts_with ds cs)"

primrec str_includes :: "jsstring \<Rightarrow> jsstring \<Rightarrow> bool" where
  "str_includes [] n = (n = [])"
| "str_includes (d # ds) n = (starts_with (d # ds) n \<or> str_includes ds n)"

text \<open>\<^verbatim>\<open>xs.slice(b, e)\<close> for indices that are not negative.\<close>

definition slice :: "nat \<Rightarrow> nat \<Rightarrow> 'a list \<Rightarrow> 'a list" where
  "slice b e xs = take (e - b) (drop b xs)"

text \<open>Decimal rendering of a number inside a template literal.\<close>

definition digit_char :: "nat \<Rightarrow> int" where
  "digit_char d = 48 + int d"

fun show_nat :: "nat \<Rightarrow> jsstring" where
  "show_nat n = (if n < 10 then [digit_char n] else show_nat (n div 10) @ [digit_char (n mod 10)])"

definition show_int :: "int \<Rightarrow> jsstring" where
  "show_int k = (if k < 0 then 0x2D # show_nat (nat (- k)) else show_nat (nat k))"


section \<open>Types\<close>

record ToothInfo =
  tooth_id :: int
  name :: jsstring
  blurb :: jsstring


section \<open>The catalog\<close>

definition names :: "jsstring list" where
  "names = [
    str ''Molar kanan atas (3rd)'',
    str ''Molar kanan atas (2nd)'',
    str ''Molar kanan atas (1st)'',
    str ''Premolar kanan atas (2nd)'',
    str ''Premolar kanan atas (1st)'',
    str ''Caninus kanan atas'',
    str ''Insisivus lateral kanan atas'',
    str ''Insisivus sentral kanan atas'',
    str ''Insisivus sentral kiri atas'',
    str ''Insisivus lateral kiri atas'',
    str ''Caninus kiri atas'',
    str ''Premolar kiri atas (1st)'',
    str ''Premolar kiri atas (2nd)'',
    str ''Molar kiri atas (1st)'',
    str ''Molar kiri atas (2nd)'',
    str ''Molar kiri atas (3rd)'',
    str ''Molar kanan bawah (3rd)'',
    str ''Molar kanan bawah (2nd)'',
    str ''Molar kanan bawah (1st)'',
    str ''Premolar kanan bawah (2nd)'',
    str ''Premolar kanan bawah (1st)'',
    str ''Caninus kanan bawah'',
    str ''Insisivus lateral kanan bawah'',
    str ''Insisivus sentral kanan bawah'',
    str ''Insisivus sentral kiri bawah'',
    str ''Insisivus lateral kiri bawah'',
    str ''Caninus kiri bawah'',
    str ''Premolar kiri bawah (1st)'',
    str ''Premolar kiri bawah (2nd)'',
    str ''Molar kiri bawah (1st)'',
    str ''Molar kiri bawah (2nd)'',
    str ''Molar kiri bawah (3rd)'']"

text \<open>The em dash, U+2014, is one code unit.\<close>

definition em_dash :: jsstring where
  "em_dash = [0x2014]"

definition tips :: "jsstring list" where
  "tips = [
    str ''Perubahan hormon saat hamil dapat meningkatkan risiko gingivitis. Sikat gigi lembut 2x sehari dan gunakan benang gigi.'',
    str ''Mual muntah dapat mengikis email. Kumur air + 1 sdt baking soda setelah muntah, tunggu 30 menit baru sikat.'',
    str ''Ngidam manis? Batasi frekuensi camilan bergula dan minum air putih setelahnya.'',
    str ''Kontrol karang gigi (scaling) umumnya aman pada trimester 2. Konsultasikan jadwal dengan dokter gigi.'',
    str ''Gunakan pasta gigi berfluor. Jika gusi mudah berdarah, jangan hentikan sikat gigi '' @ em_dash @ str '' fokuskan teknik lembut.'',
    str ''X-ray gigi hanya bila perlu, dengan pelindung timah dan sesuai saran dokter.'',
    str ''Obat bius lokal seperti lidokain umumnya dapat dipertimbangkan; selalu infokan status kehamilan.'',
    str ''Gusi bengkak? Kompres dingin di pipi dapat membantu sementara, namun periksa jika nyeri berlanjut.'']"

text \<open>
  One element of \<^verbatim>\<open>Array.from({ length: 32 }, (_, i) => ...)\<close>. \<^verbatim>\<open>names[i]\<close> is
  \<^verbatim>\<open>undefined\<close> past the end of the list, and then \<^verbatim>\<open>??\<close> takes the template
  literal.
\<close>

definition mk_tooth :: "nat \<Rightarrow> ToothInfo" where
  "mk_tooth i = (let k = int i + 1 in
     \<lparr> tooth_id = k,
       name = (if i < length names then names ! i else str ''Gigi '' @ show_int k),
       blurb = tips ! (i mod length tips) \<rparr>)"

definition toothInfos :: "ToothInfo list" where
  "toothInfos = map mk_tooth [0..<32]"


section \<open>The 3D scene\<close>

text \<open>
  What \<^verbatim>\<open>TeethRow\<close> hands to each \<^verbatim>\<open>Tooth\<close>: its id, its position and whether it
  is the active one. Every tooth gets the same \<^verbatim>\<open>onClick\<close> callback, which is modelled
  with the event handlers below. Coordinates are JavaScript numbers in the source; here
  they are exact reals, so the layout is the curve the formulas describe, without
  floating-point rounding.
\<close>

record ToothProps =
  tp_id :: int
  position :: "real \<times> real \<times> real"
  isActive :: bool

record RowView =
  rotation :: "real \<times> real \<times> real"
  teeth :: "ToothProps list"

definition positions :: "real \<Rightarrow> int \<Rightarrow> (real \<times> real \<times> real) list" where
  "positions y mirror = map (\<lambda>i.
     let t = (real i - 7.5) / 7.5;
         x = t * 3.6;
         z = - (t ^ 2) * 1.6 * real_of_int mirror
     in (x, y, z)) [0..<16]"

definition TeethRow :: "real \<Rightarrow> int \<Rightarrow> int option \<Rightarrow> RowView" where
  "TeethRow y mirror a =
     \<lparr> rotation = (if mirror = 1 then - 0.1 else 0.1, 0, 0),
       teeth = map (\<lambda>(i, p).
         let k = (if mirror = 1 then int i + 1 else int i + 17)
         in \<lparr> tp_id = k, position = p, isActive = (a = Some k) \<rparr>)
         (enumerate 0 (positions y mirror)) \<rparr>"

definition TeethScene :: "int option \<Rightarrow> RowView list" where
  "TeethScene a = [TeethRow 0.7 1 a, TeethRow (- 0.7) (- 1) a]"

definition placeholders :: "RowView list \<Rightarrow> ToothProps list" where
  "placeholders rows = concat (map teeth rows)"


section \<open>The landing page component\<close>

text \<open>The two \<^verbatim>\<open>useState\<close> cells of \<^verbatim>\<open>DentalPregnancyLanding\<close>.\<close>

record state =
  activeId :: "int option"
  query :: jsstring

definition init_state :: state where
  "init_state = \<lparr> activeId = None, query = [] \<rparr>"

definition setActiveId :: "int option \<Rightarrow> state \<Rightarrow> state" where
  "setActiveId v s = s\<lparr> activeId := v \<rparr>"

definition setQuery :: "jsstring \<Rightarrow> state \<Rightarrow> state" where
  "setQuery v s = s\<lparr> query := v \<rparr>"

text \<open>
  \<^verbatim>\<open>activeId ? toothInfos.find(...) ?? null : null\<close>: the condition is false for
  \<^verbatim>\<open>null\<close> and for the number 0.
\<close>

definition activeTooth :: "state \<Rightarrow> ToothInfo option" where
  "activeTooth s = (case activeId s of
     None \<Rightarrow> None
   | Some a \<Rightarrow> if a = 0 then None else find (\<lambda>t. tooth_id t = a) toothInfos)"

text \<open>
  The callback of \<^verbatim>\<open>useMemo\<close>, with the two built-in string methods it calls as
  parameters \<open>T\<close> (for \<^verbatim>\<open>trim\<close>) and \<open>L\<close> (for \<^verbatim>\<open>toLowerCase\<close>); \<open>filtered\<close> is the
  callback with the built-ins themselves.
\<close>

definition filtered_with ::
  "(jsstring \<Rightarrow> jsstring) \<Rightarrow> (jsstring \<Rightarrow> jsstring) \<Rightarrow> state \<Rightarrow> ToothInfo list" where
  "filtered_with T L s = (let q = L (T (query s)) in
     if q = [] then slice 0 8 toothInfos
     else slice 0 8 (filter (\<lambda>t. str_includes (L (name t @ str '' '' @ blurb t)) q) toothInfos))"

definition filtered :: "state \<Rightarrow> ToothInfo list" where
  "filtered s = filtered_with trim toLowerCase s"

text \<open>
  The info panel: nothing when there is no active tooth, otherwise a card with the name
  as title and the tip as text (the note and the two buttons under it are constant).
\<close>

record PanelView =
  title :: jsstring
  body :: jsstring

definition InfoPanel :: "ToothInfo option \<Rightarrow> PanelView option" where
  "InfoPanel t = (case t of
     None \<Rightarrow> None
   | Some r \<Rightarrow> Some \<lparr> title = name r, body = blurb r \<rparr>)"

record view =
  results :: "ToothInfo list"
  scene :: "RowView list"
  panel :: "PanelView option"

definition render :: "state \<Rightarrow> view" where
  "render s = \<lparr> results = filtered s, scene = TeethScene (activeId s),
     panel = InfoPanel (activeTooth s) \<rparr>"

text \<open>
  The user's actions on the rendered page: typing into the search input, clicking the
  \<open>k\<close>-th search result, clicking the \<open>j\<close>-th tooth of the scene, and pressing the
  panel's close button. An action on a control that is not on the page gives \<open>None\<close>.
\<close>

datatype event = Change jsstring | ClickResult nat | ClickTooth nat | Clear

definition onClear :: "state \<Rightarrow> state" where
  "onClear s = setActiveId None s"

fun handle :: "event \<Rightarrow> state \<Rightarrow> state option" where
  "handle (Change v) s = Some (setQuery v s)"
| "handle (ClickResult k) s =
     (if k < length (results (render s))
      then Some (setActiveId (Some (tooth_id (results (render s) ! k))) s) else None)"
| "handle (ClickTooth j) s =
     (if j < length (placeholders (scene (render s)))
      then Some (setActiveId (Some (tp_id (placeholders (scene (render s)) ! j))) s) else None)"
| "handle Clear s = (if panel (render s) = None then None else Some (onClear s))"

fun run :: "event list \<Rightarrow> state \<Rightarrow> state option" where
  "run [] s = Some s"
| "run (e # es) s = (case handle e s of None \<Rightarrow> None | Some s' \<Rightarrow> run es s')"

definition reachable :: "state \<Rightarrow> bool" where
  "reachable s = (\<exists>es. run es init_state = Some s)"

definition valid_selection :: "state \<Rightarrow> bool" where
  "valid_selection s = (case activeId s of
     None \<Rightarrow> True
   | Some a \<Rightarrow> 1 \<le> a \<and> a \<le> 32 \<and> find (\<lambda>t. tooth_id t = a) toothInfos \<noteq> None)"


section \<open>The search filter in the words of the specification\<close>

text \<open>
  The search filter as the specification describes it: normalise the query by trimming
  and lowercasing; an empty normalised query gives the first 8 catalog records;
  otherwise the result is the first at most 8 records, in catalog order, whose name
  followed by \<open>sep\<close> followed by the tip contains, lowercased, the normalised query as a
  substring. Containment is the library's \<^const>\<open>sublist\<close>; \<open>T\<close> trims and \<open>L\<close>
  lowercases. The specification concatenates name and tip directly, which is
  \<open>sep = []\<close>.
\<close>

definition search_filter_spec ::
  "(jsstring \<Rightarrow> jsstring) \<Rightarrow> (jsstring \<Rightarrow> jsstring) \<Rightarrow> jsstring \<Rightarrow> jsstring \<Rightarrow> ToothInfo list" where
  "search_filter_spec T L sep q = (let n = L (T q) in
     if n = [] then take 8 toothInfos
     else take 8 (filter (\<lambda>t. sublist n (L (name t @ sep @ blurb t))) toothInfos))"


section \<open>Facts about the built-ins and the catalog\<close>

lemma starts_with_prefix: "starts_with h n \<longleftrightarrow> prefix n h"
  by (induction n arbitrary: h) (auto split: list.splits simp: prefix_Cons)

lemma str_includes_sublist: "str_includes h n \<longleftrightarrow> sublist n h"
  by (induction h) (auto simp: starts_with_prefix sublist_Cons_right)

lemma length_names: "length names = 32"
  by (simp add: names_def)

lemma length_tips: "length tips = 8"
  by (simp add: tips_def)

lemma names_nonempty: "i < 32 \<Longrightarrow> names ! i \<noteq> []"
proof -
  assume "i < 32"
  then have "names ! i \<in> set names" by (simp add: length_names)
  moreover have "[] \<notin> set names" by (simp add: names_def str_def)
  ultimately show ?thesis by metis
qed

lemma length_toothInfos: "length toothInfos = 32"
  by (simp add: toothInfos_def)

lemma nth_toothInfos: "i < 32 \<Longrightarrow> toothInfos ! i = mk_tooth i"
  unfolding toothInfos_def by (simp del: upt_Suc)

lemma tooth_id_mk_tooth: "tooth_id (mk_tooth i) = int i + 1"
  by (simp add: mk_tooth_def Let_def)

text \<open>
  The catalog with the two lists evaluated once; as a code equation it keeps the
  evaluation of the catalog short.
\<close>

lemma toothInfos_shared [code]:
  "toothInfos = (let ns = names; ts = tips in
     map (\<lambda>i. \<lparr> tooth_id = int i + 1, name = ns ! i, blurb = ts ! (i mod 8) \<rparr>) [0..<32])"
  unfolding toothInfos_def Let_def
  by (rule map_cong[OF refl]) (simp add: mk_tooth_def length_names length_tips)

lemma find_append_case:
  "find P (xs @ ys) = (case find P xs of None \<Rightarrow> find P ys | Some x \<Rightarrow> Some x)"
  by (induction xs) auto

lemma find_mk_tooth:
  "find (\<lambda>t. tooth_id t = a) (map mk_tooth [0..<n]) =
     (if 1 \<le> a \<and> a \<le> int n then Some (mk_tooth (nat (a - 1))) else None)"
proof (induction n)
  case 0
  then show ?case by simp
next
  case (Suc n)
  show ?case
  proof (cases "1 \<le> a \<and> a \<le> int n")
    case True
    with Suc show ?thesis by (simp add: find_append_case)
  next
    case False
    with Suc have "find (\<lambda>t. tooth_id t = a) (map mk_tooth [0..<n]) = None" by simp
    then show ?thesis using False
      by (auto simp: find_append_case tooth_id_mk_tooth)
  qed
qed

lemma find_toothInfos:
  "find (\<lambda>t. tooth_id t = a) toothInfos =
     (if 1 \<le> a \<and> a \<le> 32 then Some (toothInfos ! nat (a - 1)) else None)"
proof -
  have "find (\<lambda>t. tooth_id t = a) toothInfos =
      (if 1 \<le> a \<and> a \<le> 32 then Some (mk_tooth (nat (a - 1))) else None)"
    unfolding toothInfos_def using find_mk_tooth[of a 32] by simp
  moreover have "toothInfos ! nat (a - 1) = mk_tooth (nat (a - 1))" if "1 \<le> a \<and> a \<le> 32"
    by (rule nth_toothInfos) (use that in arith)
  ultimately show ?thesis by simp
qed

lemma tooth_id_in_set: "t \<in> set toothInfos \<Longrightarrow> 1 \<le> tooth_id t \<and> tooth_id t \<le> 32"
  unfolding toothInfos_def by (auto simp: tooth_id_mk_tooth simp del: upt_Suc)

lemma sorted_ids: "sorted_wrt (\<lambda>x y. tooth_id x < tooth_id y) toothInfos"
proof -
  have "sorted_wrt (\<lambda>x y. tooth_id (mk_tooth x) < tooth_id (mk_tooth y)) [0..<32]"
    by (rule sorted_wrt_mono_rel[OF _ sorted_wrt_upt]) (simp add: tooth_id_mk_tooth)
  then show ?thesis unfolding toothInfos_def sorted_wrt_map .
qed

lemma subseq_filtered: "subseq (filtered s) toothInfos"
proof -
  have "subseq (take 8 xs) toothInfos" if "subseq xs toothInfos" for xs :: "ToothInfo list"
    using prefix_imp_subseq[OF take_is_prefix] that by (rule subseq_order.order_trans)
  then show ?thesis
    unfolding filtered_def filtered_with_def slice_def Let_def by simp
qed

lemma length_filtered: "length (filtered s) \<le> 8"
  unfolding filtered_def filtered_with_def slice_def Let_def by simp

lemma filtered_query_only: "query s = query s' \<Longrightarrow> filtered s = filtered s'"
  by (simp add: filtered_def filtered_with_def)

lemma panel_selected:
  assumes "1 \<le> a" "a \<le> 32"
  shows "panel (render (s\<lparr>activeId := Some a\<rparr>)) =
     Some \<lparr>title = name (toothInfos ! nat (a - 1)), body = blurb (toothInfos ! nat (a - 1))\<rparr>"
  using assms by (simp add: render_def activeTooth_def find_toothInfos InfoPanel_def)


text \<open>
  The built-ins on white space and letters outside ASCII: a no-break space and a line
  separator are trimmed, a lone byte order mark trims to the empty string, the Kelvin
  sign lowers to \<open>k\<close>, capital I with dot above to two code units, a capital sigma at
  the end of a word to the final sigma and elsewhere to the small sigma, and a letter
  outside the basic plane (a surrogate pair) to its lowercase pair.
\<close>

lemma trim_beyond_ascii:
  "trim ([0xA0] @ str ''x-ray'' @ [0xA0]) = str ''x-ray''"
  "trim (str '' x-ray'' @ [0x2028]) = str ''x-ray''"
  "trim [0xFEFF] = []"
  "trim (str ''a b'') = str ''a b''"
  by code_simp+

lemma toLowerCase_beyond_ascii:
  "toLowerCase ([0x212A] @ str ''ONTROL'') = str ''kontrol''"
  "toLowerCase [0x130] = [0x69, 0x307]"
  "toLowerCase [0x39F, 0x394, 0x39F, 0x3A3] = [0x3BF, 0x3B4, 0x3BF, 0x3C2]"
  "toLowerCase [0x3A3, 0x39F] = [0x3C3, 0x3BF]"
  "toLowerCase [0xD801, 0xDC00] = [0xD801, 0xDC28]"
  "toLowerCase [0xDC00, 0x41, 0xD801] = [0xDC00, 0x61, 0xD801]"
  "toLowerCase em_dash = em_dash"
  by code_simp+

lemma filtered_beyond_ascii:
  "map tooth_id (filtered \<lparr>activeId = None, query = [0xA0] @ str ''x-ray'' @ [0xA0]\<rparr>)
     = [6, 14, 22, 30]"
  "map tooth_id (filtered \<lparr>activeId = None, query = str ''x-ray'' @ [0x2028]\<rparr>)
     = [6, 14, 22, 30]"
  "map tooth_id (filtered \<lparr>activeId = None, query = [0xFEFF]\<rparr>) = [1, 2, 3, 4, 5, 6, 7, 8]"
  "map tooth_id (filtered \<lparr>activeId = None, query = [0x212A] @ str ''ontrol''\<rparr>)
     = [4, 12, 20, 28]"
  by code_simp+


section \<open>Facts about the scene and the event handlers\<close>

lemma enumerate_map_upt: "enumerate 0 (map f [0..<n]) = map (\<lambda>i. (i, f i)) [0..<n]"
  by (rule nth_equalityI) (simp_all add: nth_enumerate_eq)

lemma teeth_TeethRow:
  "teeth (TeethRow y m a) = map (\<lambda>i.
     \<lparr> tp_id = (if m = 1 then int i + 1 else int i + 17),
       position = ((real i - 7.5) / 7.5 * 3.6, y,
                   - (((real i - 7.5) / 7.5) ^ 2) * 1.6 * real_of_int m),
       isActive = (a = Some (if m = 1 then int i + 1 else int i + 17)) \<rparr>) [0..<16]"
  unfolding TeethRow_def positions_def enumerate_map_upt
  by (simp add: Let_def del: upt_Suc)

lemma length_teeth: "length (teeth (TeethRow y m a)) = 16"
  by (simp add: teeth_TeethRow del: upt_Suc)

lemma placeholders_TeethScene:
  "placeholders (TeethScene a) = teeth (TeethRow 0.7 1 a) @ teeth (TeethRow (- 0.7) (- 1) a)"
  by (simp add: placeholders_def TeethScene_def)

lemma length_placeholders: "length (placeholders (TeethScene a)) = 32"
  by (simp add: placeholders_TeethScene length_teeth)

lemma tp_id_placeholder:
  "j < 32 \<Longrightarrow> tp_id (placeholders (TeethScene a) ! j) = int j + 1"
  by (simp add: placeholders_TeethScene nth_append length_teeth)
     (simp add: teeth_TeethRow del: upt_Suc)

lemma handle_ClickTooth:
  "handle (ClickTooth j) s = (if j < 32 then Some (setActiveId (Some (int j + 1)) s) else None)"
  by (simp add: render_def length_placeholders tp_id_placeholder)

lemma handle_valid: "handle e s = Some s' \<Longrightarrow> valid_selection s \<Longrightarrow> valid_selection s'"
proof (cases e)
  case (Change v)
  assume "handle e s = Some s'" "valid_selection s"
  with Change show ?thesis by (auto simp: setQuery_def valid_selection_def)
next
  case (ClickResult k)
  assume h: "handle e s = Some s'"
  with ClickResult have k: "k < length (filtered s)"
    and s': "s' = setActiveId (Some (tooth_id (filtered s ! k))) s"
    by (auto simp: render_def split: if_splits)
  from k have "filtered s ! k \<in> set (filtered s)" by (rule nth_mem)
  then have "filtered s ! k \<in> set toothInfos"
    using subseq_filtered[of s] by (auto elim: list_emb_set)
  then show ?thesis
    using tooth_id_in_set[of "filtered s ! k"]
    by (simp add: s' valid_selection_def setActiveId_def find_toothInfos)
next
  case (ClickTooth j)
  assume "handle e s = Some s'"
  with ClickTooth show ?thesis
    by (auto simp: handle_ClickTooth valid_selection_def setActiveId_def find_toothInfos
        simp del: handle.simps split: if_splits)
next
  case Clear
  assume "handle e s = Some s'"
  with Clear show ?thesis
    by (auto simp: valid_selection_def setActiveId_def onClear_def split: if_splits)
qed

lemma run_valid: "run es s = Some s' \<Longrightarrow> valid_selection s \<Longrightarrow> valid_selection s'"
proof (induction es arbitrary: s)
  case Nil
  then show ?case by simp
next
  case (Cons e es)
  from Cons.prems(1) obtain s1 where h: "handle e s = Some s1" and r: "run es s1 = Some s'"
    by (auto split: option.splits)
  from h Cons.prems(2) have "valid_selection s1" by (rule handle_valid)
  with r show ?case by (rule Cons.IH)
qed

lemma valid_init: "valid_selection init_state"
  by (simp add: valid_selection_def init_state_def)

lemma handle_ClickResult:
  "handle (ClickResult k) s =
     (if k < length (filtered s) then Some (setActiveId (Some (tooth_id (filtered s ! k))) s) else None)"
  by (simp add: render_def)

lemma handle_Clear:
  "handle Clear s = (if activeTooth s = None then None else Some (onClear s))"
  by (simp add: render_def InfoPanel_def split: option.splits)

lemma take8_toothInfos: "map tooth_id (take 8 toothInfos) = [1, 2, 3, 4, 5, 6, 7, 8]"
  by code_simp

lemma filtered_init: "map tooth_id (filtered init_state) = [1, 2, 3, 4, 5, 6, 7, 8]"
  using take8_toothInfos
  by (simp add: filtered_def filtered_with_def init_state_def trim_def toLowerCase_def
      CodePointsToString_def slice_def)


section \<open>The tooth catalog\<close>

text \<open>
  C2. The catalog built at module load has exactly 32 records. The record at index
  \<open>i\<close> (from 0 to 31) has id \<open>i + 1\<close>, so the ids are 1, 2, ..., 32 without repetition;
  its name is not empty; and its tip is entry \<open>(id - 1) mod 8\<close> of the list of the 8
  tips, hence one of them.
\<close>

theorem catalog_records:
  "length toothInfos = 32 \<and> length tips = 8 \<and>
   (\<forall>i<32. tooth_id (toothInfos ! i) = int i + 1
      \<and> name (toothInfos ! i) \<noteq> []
      \<and> blurb (toothInfos ! i) = tips ! (nat (tooth_id (toothInfos ! i) - 1) mod 8)
      \<and> blurb (toothInfos ! i) \<in> set tips)
   \<and> distinct (map tooth_id toothInfos)"
proof (intro conjI allI impI)
  show "length toothInfos = 32" by (rule length_toothInfos)
  show "length tips = 8" by (rule length_tips)
  have "sorted_wrt (<) (map tooth_id toothInfos)"
    unfolding sorted_wrt_map by (rule sorted_ids)
  then show "distinct (map tooth_id toothInfos)"
    by (simp add: strict_sorted_iff)
next
  fix i :: nat assume i: "i < 32"
  then have eq: "toothInfos ! i = mk_tooth i" by (rule nth_toothInfos)
  show "tooth_id (toothInfos ! i) = int i + 1"
    by (simp add: eq tooth_id_mk_tooth)
  show "name (toothInfos ! i) \<noteq> []"
    using i names_nonempty[OF i] by (simp add: eq mk_tooth_def Let_def length_names)
  show "blurb (toothInfos ! i) = tips ! (nat (tooth_id (toothInfos ! i) - 1) mod 8)"
    by (simp add: eq mk_tooth_def Let_def length_tips)
  have "tips ! (i mod 8) \<in> set tips"
    by (rule nth_mem) (simp add: length_tips)
  then show "blurb (toothInfos ! i) \<in> set tips"
    by (simp add: eq mk_tooth_def Let_def length_tips)
qed

theorem catalog_records_witness:
  "(31::nat) < 32 \<and> tooth_id (toothInfos ! 31) = 32 \<and> name (toothInfos ! 31) \<noteq> []
     \<and> blurb (toothInfos ! 31) = tips ! 7 \<and> blurb (toothInfos ! 31) \<in> set tips"
  using catalog_records by simp


section \<open>The search filter\<close>

text \<open>
  C1, as amended. For every query the search filter returns what the specification
  describes, with one change: the text searched in a record is its name, one space,
  and its tip (\<^verbatim>\<open>t.name + " " + t.blurb\<close>), not name and tip put together directly.
  So the query is trimmed and lowercased; if nothing is left the result is the first 8
  catalog records; otherwise it is the first at most 8 records, in catalog order, whose
  lowercased name-space-tip contains the normalised query. This holds for the filter
  with \<^verbatim>\<open>trim\<close> and \<^verbatim>\<open>toLowerCase\<close> as modelled above, and for the callback with
  any two functions in their place, so it does not rest on what the two built-ins do
  to a particular character.
\<close>

theorem search_filter_behaviour:
  "filtered_with T L s = search_filter_spec T L (str '' '') (query s)
   \<and> filtered s = search_filter_spec trim toLowerCase (str '' '') (query s)"
  by (simp add: filtered_def filtered_with_def search_filter_spec_def slice_def Let_def
      str_includes_sublist)

text \<open>
  C1 as stated fails for a query that runs over the boundary between name and tip.
  For the query \<open>atas perubahan\<close> the code returns record 9 (its name ends in
  \<open>atas\<close> and its tip begins with \<open>Perubahan\<close>), while no record's name and tip put
  together directly contain that query, so the filter as stated returns nothing.
\<close>

theorem search_filter_counterexample:
  "map tooth_id (filtered \<lparr>activeId = None, query = (str ''atas perubahan'')\<rparr>) = [9]
   \<and> search_filter_spec trim toLowerCase [] (str ''atas perubahan'') = []"
proof (rule conjI)
  show "map tooth_id (filtered \<lparr>activeId = None, query = (str ''atas perubahan'')\<rparr>) = [9]"
    by code_simp
  show "search_filter_spec trim toLowerCase [] (str ''atas perubahan'') = []"
    by code_simp
qed

text \<open>
  C4. Whatever the query, the list of search results has at most 8 elements, and they
  come in catalog order: the list is a subsequence of the catalog, with strictly
  increasing ids.
\<close>

theorem filtered_capped_in_order:
  "length (filtered s) \<le> 8 \<and> subseq (filtered s) toothInfos
     \<and> sorted_wrt (<) (map tooth_id (filtered s))"
proof (intro conjI)
  show "length (filtered s) \<le> 8" by (rule length_filtered)
  show "subseq (filtered s) toothInfos" by (rule subseq_filtered)
  have "sorted_wrt (\<lambda>x y. tooth_id x < tooth_id y) (take 8 (filter P toothInfos))" for P
    by (intro sorted_wrt_take sorted_wrt_filter sorted_ids)
  from this[of "\<lambda>t. True"] this
  show "sorted_wrt (<) (map tooth_id (filtered s))"
    unfolding filtered_def filtered_with_def slice_def Let_def sorted_wrt_map by simp
qed

text \<open>
  C8. For the query \<open>x-ray\<close> the search filter returns the records with ids 6, 14, 22
  and 30. These are all the records whose tip mentions x-ray, and they are the records
  that carry tip number 5; the result has no more than 8 records.
\<close>

theorem xray_query:
  "map tooth_id (filtered \<lparr>activeId = a, query = (str ''x-ray'')\<rparr>) = [6, 14, 22, 30]
   \<and> map tooth_id (filter (\<lambda>t. sublist (str ''x-ray'') (toLowerCase (blurb t))) toothInfos) = [6, 14, 22, 30]
   \<and> map tooth_id (filter (\<lambda>t. blurb t = tips ! 5) toothInfos) = [6, 14, 22, 30]
   \<and> length (filtered \<lparr>activeId = a, query = (str ''x-ray'')\<rparr>) \<le> 8"
proof (intro conjI)
  have "filtered \<lparr>activeId = a, query = (str ''x-ray'')\<rparr> = filtered \<lparr>activeId = None, query = (str ''x-ray'')\<rparr>"
    by (rule filtered_query_only) simp
  moreover have "map tooth_id (filtered \<lparr>activeId = None, query = (str ''x-ray'')\<rparr>) = [6, 14, 22, 30]"
    by code_simp
  ultimately show "map tooth_id (filtered \<lparr>activeId = a, query = (str ''x-ray'')\<rparr>) = [6, 14, 22, 30]"
    by simp
  show "map tooth_id (filter (\<lambda>t. sublist (str ''x-ray'') (toLowerCase (blurb t))) toothInfos) = [6, 14, 22, 30]"
    by code_simp
  show "map tooth_id (filter (\<lambda>t. blurb t = tips ! 5) toothInfos) = [6, 14, 22, 30]"
    by code_simp
  show "length (filtered \<lparr>activeId = a, query = (str ''x-ray'')\<rparr>) \<le> 8"
    by (rule length_filtered)
qed


section \<open>The selection\<close>

text \<open>
  C3. The selection starts empty and the panel renders nothing then. Selecting an id
  sets the selection to that id, whatever it was before; a click on a search result
  and a click on a tooth of the scene do exactly this, with the id of that result and
  of that tooth. The dismiss action empties the selection. With an empty selection the
  panel renders nothing. In every state the user can reach with a selection \<open>a\<close>, the
  panel shows the name and the tip of the catalog record whose id is \<open>a\<close>, and its
  dismiss button is there.
\<close>

theorem selection_state_machine:
  "activeId init_state = None \<and> panel (render init_state) = None
   \<and> activeId (setActiveId (Some i) s) = Some i
   \<and> (handle (ClickResult k) s = Some s1 \<longrightarrow>
        s1 = setActiveId (Some (tooth_id (filtered s ! k))) s)
   \<and> (handle (ClickTooth j) s = Some s2 \<longrightarrow> s2 = setActiveId (Some (int j + 1)) s)
   \<and> activeId (onClear s) = None
   \<and> (handle Clear s = Some s3 \<longrightarrow> s3 = onClear s)
   \<and> (activeId s = None \<longrightarrow> panel (render s) = None)
   \<and> (reachable s \<and> activeId s = Some a \<longrightarrow>
        tooth_id (toothInfos ! nat (a - 1)) = a
      \<and> panel (render s) = Some \<lparr>title = name (toothInfos ! nat (a - 1)),
                                  body = blurb (toothInfos ! nat (a - 1))\<rparr>
      \<and> handle Clear s = Some (onClear s))"
proof (intro conjI impI)
  show "activeId init_state = None" by (simp add: init_state_def)
  show "panel (render init_state) = None"
    by (simp add: init_state_def render_def activeTooth_def InfoPanel_def)
  show "activeId (setActiveId (Some i) s) = Some i" by (simp add: setActiveId_def)
  show "activeId (onClear s) = None" by (simp add: onClear_def setActiveId_def)
next
  assume "handle (ClickResult k) s = Some s1"
  then show "s1 = setActiveId (Some (tooth_id (filtered s ! k))) s"
    by (simp add: handle_ClickResult del: handle.simps split: if_splits)
next
  assume "handle (ClickTooth j) s = Some s2"
  then show "s2 = setActiveId (Some (int j + 1)) s"
    by (simp add: handle_ClickTooth del: handle.simps split: if_splits)
next
  assume "handle Clear s = Some s3"
  then show "s3 = onClear s" by (simp split: if_splits)
next
  assume "activeId s = None"
  then show "panel (render s) = None" by (simp add: render_def activeTooth_def InfoPanel_def)
next
  assume h: "reachable s \<and> activeId s = Some a"
  then obtain es where "run es init_state = Some s" unfolding reachable_def by blast
  then have "valid_selection s" using valid_init by (rule run_valid)
  with h have a: "1 \<le> a" "a \<le> 32" by (simp_all add: valid_selection_def)
  then have "nat (a - 1) < 32" by arith
  then show "tooth_id (toothInfos ! nat (a - 1)) = a"
    using a by (simp add: nth_toothInfos tooth_id_mk_tooth)
  from h have "s = s\<lparr>activeId := Some a\<rparr>" by simp
  with panel_selected[OF a, of s]
  show p: "panel (render s) = Some \<lparr>title = name (toothInfos ! nat (a - 1)),
                                  body = blurb (toothInfos ! nat (a - 1))\<rparr>" by simp
  then show "handle Clear s = Some (onClear s)" by simp
qed

theorem selection_state_machine_witness:
  "handle (ClickResult 4) init_state = Some \<lparr>activeId = Some 5, query = []\<rparr>
   \<and> handle (ClickTooth 11) \<lparr>activeId = Some 5, query = []\<rparr> = Some \<lparr>activeId = Some 12, query = []\<rparr>
   \<and> handle Clear \<lparr>activeId = Some 12, query = []\<rparr> = Some init_state
   \<and> panel (render init_state) = None
   \<and> reachable \<lparr>activeId = Some 5, query = []\<rparr>
   \<and> tooth_id (toothInfos ! 4) = 5
   \<and> panel (render \<lparr>activeId = Some 5, query = []\<rparr>) =
        Some \<lparr>title = name (toothInfos ! 4), body = blurb (toothInfos ! 4)\<rparr>"
proof -
  let ?s5 = "\<lparr>activeId = Some 5, query = []\<rparr>"
  let ?s12 = "\<lparr>activeId = Some 12, query = []\<rparr>"
  have len: "4 < length (filtered init_state)"
    using arg_cong[OF filtered_init, of length] by simp
  have "tooth_id (filtered init_state ! 4) = map tooth_id (filtered init_state) ! 4"
    using len by simp
  then have id5: "tooth_id (filtered init_state ! 4) = 5" by (simp add: filtered_init)
  have h1: "handle (ClickResult 4) init_state = Some ?s5"
    using len id5 by (simp add: handle_ClickResult setActiveId_def init_state_def del: handle.simps)
  have h2: "handle (ClickTooth 11) ?s5 = Some ?s12"
    by (simp add: handle_ClickTooth setActiveId_def del: handle.simps)
  have h3: "handle Clear ?s12 = Some init_state"
    by (simp add: handle_Clear activeTooth_def find_toothInfos onClear_def setActiveId_def
        init_state_def del: handle.simps)
  have "run [ClickResult 4] init_state = Some ?s5" using h1 by simp
  then have r: "reachable ?s5" unfolding reachable_def by (rule exI[where x = "[ClickResult 4]"])
  note t = selection_state_machine[of 5 ?s5 4 ?s12 11 ?s12 init_state 5]
  from t have p0: "panel (render init_state) = None" by simp
  from t r have "tooth_id (toothInfos ! nat (5 - 1)) = 5
      \<and> panel (render ?s5) = Some \<lparr>title = name (toothInfos ! nat (5 - 1)),
                                  body = blurb (toothInfos ! nat (5 - 1))\<rparr>"
    by (simp del: handle.simps)
  then have p5: "tooth_id (toothInfos ! 4) = 5
      \<and> panel (render ?s5) = Some \<lparr>title = name (toothInfos ! 4), body = blurb (toothInfos ! 4)\<rparr>"
    by simp
  from h1 h2 h3 p0 r p5 show ?thesis by (intro conjI) simp_all
qed

text \<open>
  C5. In every state the user can reach from the initial state, a selection that is
  present is the id of a catalog record, a number from 1 to 32; and every single
  action keeps it so.
\<close>

theorem selection_invariant:
  "(reachable s \<longrightarrow> valid_selection s)
   \<and> (valid_selection s0 \<and> handle e s0 = Some s1 \<longrightarrow> valid_selection s1)"
  unfolding reachable_def using run_valid[OF _ valid_init] handle_valid by blast

theorem selection_invariant_witness:
  "reachable \<lparr>activeId = Some 14, query = (str ''X-RAY '')\<rparr>
   \<and> valid_selection \<lparr>activeId = Some 14, query = (str ''X-RAY '')\<rparr>
   \<and> handle (ClickTooth 31) \<lparr>activeId = Some 14, query = (str ''X-RAY '')\<rparr>
        = Some \<lparr>activeId = Some 32, query = (str ''X-RAY '')\<rparr>
   \<and> valid_selection \<lparr>activeId = Some 32, query = (str ''X-RAY '')\<rparr>"
proof -
  let ?s = "\<lparr>activeId = Some 14, query = (str ''X-RAY '')\<rparr>"
  let ?s1 = "\<lparr>activeId = Some 32, query = (str ''X-RAY '')\<rparr>"
  let ?es = "[ClickTooth 4, Change (str ''X-RAY ''), ClickResult 1]"
  have "run ?es init_state = Some ?s"
    by code_simp
  then have r: "reachable ?s" unfolding reachable_def by (rule exI[where x = ?es])
  have h: "handle (ClickTooth 31) ?s = Some ?s1"
    by (simp add: handle_ClickTooth setActiveId_def del: handle.simps)
  note t = selection_invariant[of ?s ?s "ClickTooth 31" ?s1]
  have v: "valid_selection ?s" by (rule t[THEN conjunct1, THEN mp, OF r])
  have v1: "valid_selection ?s1" by (rule t[THEN conjunct2, THEN mp, OF conjI, OF v h])
  from r v h v1 show ?thesis by (intro conjI)
qed

text \<open>
  C6. Selecting the same id twice is the same as selecting it once: for the state
  update itself, for a click on the same tooth, and for a click on the same search
  result.
\<close>

theorem select_idempotent:
  "setActiveId (Some i) (setActiveId (Some i) s) = setActiveId (Some i) s
   \<and> activeId (setActiveId (Some i) s) = Some i
   \<and> (handle (ClickTooth j) s = Some s1 \<longrightarrow> handle (ClickTooth j) s1 = Some s1)
   \<and> (handle (ClickResult k) s = Some s2 \<longrightarrow> handle (ClickResult k) s2 = Some s2)"
proof (intro conjI impI)
  show "setActiveId (Some i) (setActiveId (Some i) s) = setActiveId (Some i) s"
    by (simp add: setActiveId_def)
  show "activeId (setActiveId (Some i) s) = Some i" by (simp add: setActiveId_def)
next
  assume "handle (ClickTooth j) s = Some s1"
  then show "handle (ClickTooth j) s1 = Some s1"
    by (auto simp: handle_ClickTooth setActiveId_def simp del: handle.simps split: if_splits)
next
  assume "handle (ClickResult k) s = Some s2"
  then have k: "k < length (filtered s)"
    and s2: "s2 = setActiveId (Some (tooth_id (filtered s ! k))) s"
    by (simp_all add: handle_ClickResult del: handle.simps split: if_splits)
  have "filtered s2 = filtered s"
    by (rule filtered_query_only) (simp add: s2 setActiveId_def)
  with k show "handle (ClickResult k) s2 = Some s2"
    by (simp add: handle_ClickResult s2 setActiveId_def del: handle.simps)
qed

theorem select_idempotent_witness:
  "handle (ClickTooth 6) init_state = Some \<lparr>activeId = Some 7, query = []\<rparr>
   \<and> handle (ClickTooth 6) \<lparr>activeId = Some 7, query = []\<rparr> = Some \<lparr>activeId = Some 7, query = []\<rparr>
   \<and> handle (ClickResult 4) init_state = Some \<lparr>activeId = Some 5, query = []\<rparr>
   \<and> handle (ClickResult 4) \<lparr>activeId = Some 5, query = []\<rparr> = Some \<lparr>activeId = Some 5, query = []\<rparr>"
proof -
  let ?s5 = "\<lparr>activeId = Some 5, query = []\<rparr>"
  let ?s7 = "\<lparr>activeId = Some 7, query = []\<rparr>"
  have len: "4 < length (filtered init_state)"
    using arg_cong[OF filtered_init, of length] by simp
  have "tooth_id (filtered init_state ! 4) = map tooth_id (filtered init_state) ! 4"
    using len by simp
  then have id5: "tooth_id (filtered init_state ! 4) = 5" by (simp add: filtered_init)
  have h1: "handle (ClickResult 4) init_state = Some ?s5"
    using len id5 by (simp add: handle_ClickResult setActiveId_def init_state_def del: handle.simps)
  have h2: "handle (ClickTooth 6) init_state = Some ?s7"
    by (simp add: handle_ClickTooth setActiveId_def init_state_def del: handle.simps)
  note t = select_idempotent[of 7 init_state 6 ?s7 4 ?s5]
  from t h2 have a: "handle (ClickTooth 6) ?s7 = Some ?s7" by (simp del: handle.simps)
  from t h1 have b: "handle (ClickResult 4) ?s5 = Some ?s5" by (simp del: handle.simps)
  from h2 a h1 b show ?thesis by (intro conjI)
qed

text \<open>
  C7. When the selection holds a number that is the id of no catalog record, there is
  no active tooth and the info panel renders nothing, the same as with no selection.
  The lookup is a total function: its failure is the value \<open>None\<close>, not an error.
\<close>

theorem out_of_range_selection:
  "\<forall>t\<in>set toothInfos. tooth_id t \<noteq> a \<Longrightarrow>
     activeTooth (setActiveId (Some a) s) = None
   \<and> panel (render (setActiveId (Some a) s)) = None
   \<and> panel (render (setActiveId (Some a) s)) = panel (render (setActiveId None s))"
proof -
  assume "\<forall>t\<in>set toothInfos. tooth_id t \<noteq> a"
  then have "find (\<lambda>t. tooth_id t = a) toothInfos = None"
    by (simp add: find_None_iff)
  then show ?thesis
    by (simp add: activeTooth_def setActiveId_def render_def InfoPanel_def)
qed

theorem out_of_range_selection_witness:
  "33 \<notin> tooth_id ` set toothInfos
   \<and> activeTooth (setActiveId (Some 33) init_state) = None
   \<and> panel (render (setActiveId (Some 33) init_state)) = None
   \<and> panel (render (setActiveId (Some 33) init_state)) = panel (render (setActiveId None init_state))"
proof -
  have h: "\<forall>t\<in>set toothInfos. tooth_id t \<noteq> 33"
    using tooth_id_in_set by fastforce
  from h have n: "33 \<notin> tooth_id ` set toothInfos" by auto
  from n out_of_range_selection[OF h, of init_state] show ?thesis by (rule conjI)
qed

text \<open>
  C10. The query and the selection do not touch each other: changing the query keeps
  the selection, selecting and dismissing keep the query, and the list of search
  results depends on the query only, so two states with the same query have the same
  results, and no action other than typing changes the results.
\<close>

theorem query_selection_independent:
  "activeId (setQuery v s) = activeId s
   \<and> query (setActiveId w s) = query s
   \<and> query (onClear s) = query s
   \<and> (query s = query s' \<longrightarrow> filtered s = filtered s')
   \<and> (handle e s = Some s1 \<longrightarrow>
        (case e of Change v \<Rightarrow> activeId s1 = activeId s \<and> query s1 = v
                 | _ \<Rightarrow> query s1 = query s \<and> filtered s1 = filtered s))"
proof (intro conjI impI)
  show "activeId (setQuery v s) = activeId s" by (simp add: setQuery_def)
  show "query (setActiveId w s) = query s" by (simp add: setActiveId_def)
  show "query (onClear s) = query s" by (simp add: onClear_def setActiveId_def)
next
  assume "query s = query s'"
  then show "filtered s = filtered s'" by (rule filtered_query_only)
next
  assume h: "handle e s = Some s1"
  show "case e of Change v \<Rightarrow> activeId s1 = activeId s \<and> query s1 = v
                 | _ \<Rightarrow> query s1 = query s \<and> filtered s1 = filtered s"
  proof (cases e)
    case (Change v)
    with h show ?thesis by (auto simp: setQuery_def)
  next
    case (ClickResult k)
    with h have q: "query s1 = query s"
      by (auto simp: handle_ClickResult setActiveId_def simp del: handle.simps split: if_splits)
    then have "filtered s1 = filtered s" by (rule filtered_query_only)
    with q ClickResult show ?thesis by simp
  next
    case (ClickTooth j)
    with h have q: "query s1 = query s"
      by (auto simp: handle_ClickTooth setActiveId_def simp del: handle.simps split: if_splits)
    then have "filtered s1 = filtered s" by (rule filtered_query_only)
    with q ClickTooth show ?thesis by simp
  next
    case Clear
    with h have q: "query s1 = query s"
      by (auto simp: handle_Clear onClear_def setActiveId_def simp del: handle.simps
          split: if_splits)
    then have "filtered s1 = filtered s" by (rule filtered_query_only)
    with q Clear show ?thesis by simp
  qed
qed

theorem query_selection_independent_witness:
  "query \<lparr>activeId = Some 3, query = (str ''mual'')\<rparr> = query \<lparr>activeId = None, query = (str ''mual'')\<rparr>
   \<and> filtered \<lparr>activeId = Some 3, query = (str ''mual'')\<rparr> = filtered \<lparr>activeId = None, query = (str ''mual'')\<rparr>
   \<and> handle (ClickTooth 4) \<lparr>activeId = Some 3, query = (str ''mual'')\<rparr>
        = Some \<lparr>activeId = Some 5, query = (str ''mual'')\<rparr>
   \<and> filtered \<lparr>activeId = Some 5, query = (str ''mual'')\<rparr> = filtered \<lparr>activeId = Some 3, query = (str ''mual'')\<rparr>"
proof -
  let ?s = "\<lparr>activeId = Some 3, query = (str ''mual'')\<rparr>"
  let ?s' = "\<lparr>activeId = None, query = (str ''mual'')\<rparr>"
  let ?s1 = "\<lparr>activeId = Some 5, query = (str ''mual'')\<rparr>"
  have q: "query ?s = query ?s'" by simp
  have h: "handle (ClickTooth 4) ?s = Some ?s1"
    by (simp add: handle_ClickTooth setActiveId_def del: handle.simps)
  note t = query_selection_independent[of "[]" ?s None ?s' "ClickTooth 4" ?s1]
  have f: "filtered ?s = filtered ?s'"
    by (rule t[THEN conjunct2, THEN conjunct2, THEN conjunct2, THEN conjunct1, THEN mp, OF q])
  have "case ClickTooth 4 of Change v \<Rightarrow> activeId ?s1 = activeId ?s \<and> query ?s1 = v
                 | _ \<Rightarrow> query ?s1 = query ?s \<and> filtered ?s1 = filtered ?s"
    by (rule t[THEN conjunct2, THEN conjunct2, THEN conjunct2, THEN conjunct2, THEN mp, OF h])
  then have g: "filtered ?s1 = filtered ?s" by simp
  from q f h g show ?thesis by (intro conjI)
qed


section \<open>The layout of the scene\<close>

text \<open>
  C9. The scene has two rows of 16 teeth, 32 placeholders in all. The first row
  (mirror 1) carries the ids 1 to 16 and the second (mirror -1) the ids 17 to 32, so
  each id from 1 to 32 belongs to exactly one placeholder. The tooth at index \<open>i\<close> of a
  row sits at \<open>x = 0.48 i - 3.6\<close>, equally spaced from -3.6 to 3.6, and its depth is
  \<open>z = - (10 / 81) x\<^sup>2\<close> in the first row and the opposite in the second, whose height
  is the opposite too: the two arches mirror each other.
\<close>

theorem teeth_scene_layout:
  "length (TeethScene a) = 2
   \<and> placeholders (TeethScene a) = teeth (TeethRow 0.7 1 a) @ teeth (TeethRow (- 0.7) (- 1) a)
   \<and> length (placeholders (TeethScene a)) = 32
   \<and> length (teeth (TeethRow 0.7 1 a)) = 16
   \<and> length (teeth (TeethRow (- 0.7) (- 1) a)) = 16
   \<and> map tp_id (teeth (TeethRow 0.7 1 a)) = [1..16]
   \<and> map tp_id (teeth (TeethRow (- 0.7) (- 1) a)) = [17..32]
   \<and> (\<forall>k. 1 \<le> k \<and> k \<le> 32 \<longrightarrow>
        (\<exists>!j. j < 32 \<and> tp_id (placeholders (TeethScene a) ! j) = k))
   \<and> (\<forall>i<16. \<exists>x z.
        position (teeth (TeethRow 0.7 1 a) ! i) = (x, 0.7, z)
      \<and> position (teeth (TeethRow (- 0.7) (- 1) a) ! i) = (x, - 0.7, - z)
      \<and> x = 0.48 * real i - 3.6
      \<and> z = - (10 / 81) * x ^ 2)"
proof (intro conjI allI impI)
  show "length (TeethScene a) = 2" by (simp add: TeethScene_def)
  show "placeholders (TeethScene a) = teeth (TeethRow 0.7 1 a) @ teeth (TeethRow (- 0.7) (- 1) a)"
    by (rule placeholders_TeethScene)
  show "length (placeholders (TeethScene a)) = 32" by (rule length_placeholders)
  show "length (teeth (TeethRow 0.7 1 a)) = 16" by (rule length_teeth)
  show "length (teeth (TeethRow (- 0.7) (- 1) a)) = 16" by (rule length_teeth)
  have u: "[1..16] = map (\<lambda>i. int i + 1) [0..<16]" by code_simp
  have l: "[17..32] = map (\<lambda>i. int i + 17) [0..<16]" by code_simp
  show "map tp_id (teeth (TeethRow 0.7 1 a)) = [1..16]"
    unfolding u teeth_TeethRow by (simp del: upt_Suc)
  show "map tp_id (teeth (TeethRow (- 0.7) (- 1) a)) = [17..32]"
    unfolding l teeth_TeethRow by (simp del: upt_Suc)
next
  fix k :: int assume k: "1 \<le> k \<and> k \<le> 32"
  show "\<exists>!j. j < 32 \<and> tp_id (placeholders (TeethScene a) ! j) = k"
  proof (rule ex1I[of _ "nat (k - 1)"])
    from k have "nat (k - 1) < 32" by arith
    with k show "nat (k - 1) < 32 \<and> tp_id (placeholders (TeethScene a) ! nat (k - 1)) = k"
      by (simp add: tp_id_placeholder)
  next
    fix j assume "j < 32 \<and> tp_id (placeholders (TeethScene a) ! j) = k"
    then show "j = nat (k - 1)" by (auto simp: tp_id_placeholder)
  qed
next
  fix i :: nat assume i: "i < 16"
  let ?x = "0.48 * real i - 3.6"
  let ?z = "- (10 / 81) * ?x ^ 2"
  have "position (teeth (TeethRow 0.7 1 a) ! i) = (?x, 0.7, ?z)"
    using i unfolding teeth_TeethRow by (simp add: power2_eq_square field_simps del: upt_Suc)
  moreover have "position (teeth (TeethRow (- 0.7) (- 1) a) ! i) = (?x, - 0.7, - ?z)"
    using i unfolding teeth_TeethRow by (simp add: power2_eq_square field_simps del: upt_Suc)
  ultimately show "\<exists>x z.
        position (teeth (TeethRow 0.7 1 a) ! i) = (x, 0.7, z)
      \<and> position (teeth (TeethRow (- 0.7) (- 1) a) ! i) = (x, - 0.7, - z)
      \<and> x = 0.48 * real i - 3.6
      \<and> z = - (10 / 81) * x ^ 2"
    by blast
qed

theorem teeth_scene_layout_witness:
  "(\<exists>!j. j < 32 \<and> tp_id (placeholders (TeethScene None) ! j) = 17)
   \<and> position (teeth (TeethRow 0.7 1 None) ! 0) = (- 3.6, 0.7, - 1.6)
   \<and> position (teeth (TeethRow (- 0.7) (- 1) None) ! 0) = (- 3.6, - 0.7, 1.6)"
proof -
  note t = teeth_scene_layout[of None]
  from t have "\<forall>k. 1 \<le> k \<and> k \<le> 32 \<longrightarrow>
        (\<exists>!j. j < 32 \<and> tp_id (placeholders (TeethScene None) ! j) = k)" by blast
  then have a: "\<exists>!j. j < 32 \<and> tp_id (placeholders (TeethScene None) ! j) = 17" by simp
  from t have "\<forall>i<16. \<exists>x z.
        position (teeth (TeethRow 0.7 1 None) ! i) = (x, 0.7, z)
      \<and> position (teeth (TeethRow (- 0.7) (- 1) None) ! i) = (x, - 0.7, - z)
      \<and> x = 0.48 * real i - 3.6
      \<and> z = - (10 / 81) * x ^ 2" by blast
  then have "\<exists>x z.
        position (teeth (TeethRow 0.7 1 None) ! 0) = (x, 0.7, z)
      \<and> position (teeth (TeethRow (- 0.7) (- 1) None) ! 0) = (x, - 0.7, - z)
      \<and> x = 0.48 * real 0 - 3.6
      \<and> z = - (10 / 81) * x ^ 2" by simp
  then have b: "position (teeth (TeethRow 0.7 1 None) ! 0) = (- 3.6, 0.7, - 1.6)
   \<and> position (teeth (TeethRow (- 0.7) (- 1) None) ! 0) = (- 3.6, - 0.7, 1.6)"
    by (auto simp: power2_eq_square)
  from a b show ?thesis by (rule conjI)
qed

end
